theory Spec2Isabelle
  imports Main "HOL-Library.AList"
begin

section \<open>Python values\<close>

text \<open>
  The state file is a JSON document and the program keeps it as nested Python
  dictionaries. A value of type \<open>Any\<close> is a JSON value; a Python \<open>dict\<close> keeps its keys
  in insertion order, so it is an association list: \<open>d.get(k)\<close> is \<open>map_of d k\<close> and
  \<open>d[k] = v\<close> is \<open>AList.update k v d\<close> (overwrite in place, or append a new key).
  Strings are lists of characters with code points below 256.
\<close>

datatype json =
    JNull
  | JBool bool
  | JInt int
  | JStr string
  | JArr "json list"
  | JObj "(string \<times> json) list"

text \<open>
  The exceptions of the model are instances of Python's \<open>Exception\<close>, the classes
  that \<open>except Exception\<close> catches. \<open>bases\<close> gives the proper ancestors of a class
  below \<open>Exception\<close>, and \<open>isinstance e c\<close> is what \<open>except c\<close> tests; \<open>IOError\<close> is
  Python 3's alias of \<open>OSError\<close>.
\<close>

datatype py_exception =
    OSError
  | FileNotFoundError
  | PermissionError
  | ValueError
  | JSONDecodeError
  | UnicodeError
  | UnicodeDecodeError
  | KeyError
  | TypeError
  | OverflowError
  | RuntimeError
  | RecursionError

fun bases :: "py_exception \<Rightarrow> py_exception list" where
  "bases FileNotFoundError = [OSError]"
| "bases PermissionError = [OSError]"
| "bases JSONDecodeError = [ValueError]"
| "bases UnicodeError = [ValueError]"
| "bases UnicodeDecodeError = [UnicodeError, ValueError]"
| "bases RecursionError = [RuntimeError]"
| "bases _ = []"

definition isinstance :: "py_exception \<Rightarrow> py_exception \<Rightarrow> bool" where
  "isinstance e c = (e = c \<or> c \<in> set (bases e))"

abbreviation IOError :: py_exception where
  "IOError \<equiv> OSError"

section \<open>state_manager.py\<close>

text \<open>
  The state has the shape that \<open>_default_state\<close> creates and \<open>update_channel_state\<close>
  maintains. The record of a channel is a \<open>Dict[str, Any]\<close>, as \<open>get_channel_state\<close>
  is annotated: any key may be missing from it and a value may be of any JSON type.
\<close>

type_synonym channel_state = "(string \<times> json) list"

record metadata_dict =
  last_run :: "string option"
  total_notifications_sent :: int
  version :: string

record state_dict =
  channels :: "(string \<times> channel_state) list"
  metadata :: metadata_dict

definition default_state :: state_dict where
  "default_state =
     \<lparr>channels = [],
      metadata = \<lparr>last_run = None, total_notifications_sent = 0, version = ''1.0.0''\<rparr>\<rparr>"

text \<open>
  \<open>_load_state\<close>. What \<open>os.path.exists\<close> answers, and what \<open>open\<close> followed by
  \<open>json.load\<close> does with the file, come from outside the program: the file is
  missing, or reading it raises, or it yields the parsed state.
\<close>

datatype read_result = ReadRaises py_exception | ReadReturns state_dict

datatype state_file = Missing | Present read_result

definition load_state :: "state_file \<Rightarrow> py_exception + state_dict" where
  "load_state file =
     (case file of
        Present r \<Rightarrow>
          (case r of
             ReadReturns s \<Rightarrow> Inr s
           | ReadRaises e \<Rightarrow>
               if isinstance e JSONDecodeError \<or> isinstance e IOError
               then Inr default_state
               else Inl e)
      | Missing \<Rightarrow> Inr default_state)"

definition get_channel_state :: "state_dict \<Rightarrow> string \<Rightarrow> channel_state option" where
  "get_channel_state s channel_id = map_of (channels s) channel_id"

definition update_channel_state ::
  "state_dict \<Rightarrow> string \<Rightarrow> string \<Rightarrow> string \<Rightarrow> string \<Rightarrow> string \<Rightarrow> state_dict" where
  "update_channel_state s channel_id channel_name latest_video_id video_timestamp utcnow =
     s\<lparr>channels :=
         AList.update channel_id
           [(''name'', JStr channel_name),
            (''latest_video_id'', JStr latest_video_id),
            (''latest_video_timestamp'', JStr video_timestamp),
            (''last_checked'', JStr utcnow)]
           (channels s)\<rparr>"

definition is_new_video :: "state_dict \<Rightarrow> string \<Rightarrow> string \<Rightarrow> bool" where
  "is_new_video s channel_id video_id =
     (case get_channel_state s channel_id of
        None \<Rightarrow> True
      | Some channel_state \<Rightarrow> map_of channel_state ''latest_video_id'' \<noteq> Some (JStr video_id))"

definition increment_notification_count :: "state_dict \<Rightarrow> state_dict" where
  "increment_notification_count s =
     s\<lparr>metadata :=
         (metadata s)\<lparr>total_notifications_sent := total_notifications_sent (metadata s) + 1\<rparr>\<rparr>"

text \<open>
  \<open>json.dump(self.state, f, indent=2)\<close>: the text that the encoder produces, with
  \<open>ensure_ascii\<close> and the separators \<open>,\<close> and \<open>: \<close> that an indent selects.
\<close>

definition hex_digit :: "nat \<Rightarrow> char" where
  "hex_digit n = ''0123456789abcdef'' ! (n mod 16)"

definition escape_char :: "char \<Rightarrow> string" where
  "escape_char c =
     (if c = CHR 0x5C then [CHR 0x5C, CHR 0x5C]
      else if c = CHR 0x22 then [CHR 0x5C, CHR 0x22]
      else if c = CHR 0x08 then [CHR 0x5C, CHR ''b'']
      else if c = CHR 0x0C then [CHR 0x5C, CHR ''f'']
      else if c = CHR 0x0A then [CHR 0x5C, CHR ''n'']
      else if c = CHR 0x0D then [CHR 0x5C, CHR ''r'']
      else if c = CHR 0x09 then [CHR 0x5C, CHR ''t'']
      else if 0x20 \<le> (of_char c :: nat) \<and> (of_char c :: nat) \<le> 0x7E then [c]
      else [CHR 0x5C, CHR ''u'', CHR ''0'', CHR ''0'',
            hex_digit (of_char c div 16), hex_digit (of_char c)])"

definition encode_basestring_ascii :: "string \<Rightarrow> string" where
  "encode_basestring_ascii s = [CHR 0x22] @ concat (map escape_char s) @ [CHR 0x22]"

fun decimal :: "nat \<Rightarrow> string" where
  "decimal n = (if n < 10 then [hex_digit n] else decimal (n div 10) @ [hex_digit (n mod 10)])"

definition int_repr :: "int \<Rightarrow> string" where
  "int_repr i = (if i < 0 then CHR ''-'' # decimal (nat (- i)) else decimal (nat i))"

definition newline_indent :: "nat \<Rightarrow> string" where
  "newline_indent level = CHR 0x0A # replicate (2 * level) CHR '' ''"

fun join :: "string \<Rightarrow> string list \<Rightarrow> string" where
  "join sep [] = []"
| "join sep [x] = x"
| "join sep (x # y # ys) = x @ sep @ join sep (y # ys)"

fun iterencode :: "nat \<Rightarrow> json \<Rightarrow> string" where
  "iterencode level JNull = ''null''"
| "iterencode level (JBool b) = (if b then ''true'' else ''false'')"
| "iterencode level (JInt i) = int_repr i"
| "iterencode level (JStr s) = encode_basestring_ascii s"
| "iterencode level (JArr xs) =
     (if xs = [] then ''[]''
      else ''['' @ newline_indent (level + 1)
           @ join (CHR '','' # newline_indent (level + 1)) (map (iterencode (level + 1)) xs)
           @ newline_indent level @ '']'')"
| "iterencode level (JObj kvs) =
     (if kvs = [] then ''{}''
      else ''{'' @ newline_indent (level + 1)
           @ join (CHR '','' # newline_indent (level + 1))
               (map (\<lambda>(k, v). encode_basestring_ascii k @ '': '' @ iterencode (level + 1) v) kvs)
           @ newline_indent level @ ''}'')"

definition state_json :: "state_dict \<Rightarrow> json" where
  "state_json s =
     JObj [(''channels'', JObj (map (\<lambda>(k, r). (k, JObj r)) (channels s))),
           (''metadata'',
            JObj [(''last_run'', (case last_run (metadata s) of None \<Rightarrow> JNull | Some t \<Rightarrow> JStr t)),
                  (''total_notifications_sent'', JInt (total_notifications_sent (metadata s))),
                  (''version'', JStr (version (metadata s)))])]"

definition json_dump :: "state_dict \<Rightarrow> string" where
  "json_dump s = iterencode 0 (state_json s)"

text \<open>
  \<open>save_state\<close>. The outside world gives the clock, whether \<open>os.makedirs\<close> or
  \<open>open(path, 'w')\<close> raises, and whether writing raises, after how many characters of
  the text had reached the file. The state file is its text, or \<open>None\<close> when there is
  none. Opening for writing empties the file before anything is written. The result
  is the exception that leaves \<open>save_state\<close> if any, the state, and the file.
\<close>

record save_input =
  save_utcnow :: string
  makedirs_raises :: "py_exception option"
  open_raises :: "py_exception option"
  write_raises :: "(nat \<times> py_exception) option"

definition save_state ::
  "save_input \<Rightarrow> state_dict \<Rightarrow> string option
     \<Rightarrow> py_exception option \<times> state_dict \<times> string option" where
  "save_state inp s file =
     (let s1 = s\<lparr>metadata := (metadata s)\<lparr>last_run := Some (save_utcnow inp)\<rparr>\<rparr> in
      case makedirs_raises inp of
        Some e \<Rightarrow> (Some e, s1, file)
      | None \<Rightarrow>
          (case open_raises inp of
             Some e \<Rightarrow> (Some e, s1, file)
           | None \<Rightarrow>
               (case write_raises inp of
                  Some (n, e) \<Rightarrow> (Some e, s1, Some (take n (json_dump s1)))
                | None \<Rightarrow> (None, s1, Some (json_dump s1)))))"

section \<open>youtube_monitor.py\<close>

text \<open>
  The records that \<open>YouTubeClient\<close> builds: a subscription (of its keys the monitor
  reads \<open>channel_id\<close> and \<open>channel_title\<close>) and a video, which always carries every
  key but may have no thumbnail.
\<close>

record subscription =
  channel_id :: string
  channel_title :: string

record video =
  video_id :: string
  title :: string
  description :: string
  published_at :: string
  thumbnail_url :: "string option"
  video_url :: string

text \<open>The configuration file: both sections and both options may be absent.\<close>

record general_config =
  dry_run :: "bool option"

record youtube_config =
  max_video_age_days :: "int option"

record config =
  general :: "general_config option"
  youtube :: "youtube_config option"

record stats =
  channels_checked :: int
  new_videos_found :: int
  notifications_sent :: int
  errors :: int

text \<open>
  \<open>datetime.fromisoformat\<close> is a parameter of the model. It raises, or returns a
  datetime without an offset (naive), or one with an offset (aware), which is an
  instant: microseconds since the epoch, in UTC.
\<close>

datatype datetime = Naive int | Aware int

fun replace_Z :: "string \<Rightarrow> string" where
  "replace_Z [] = []"
| "replace_Z (c # cs) = (if c = CHR ''Z'' then ''+00:00'' @ replace_Z cs else c # replace_Z cs)"

text \<open>\<open>timedelta(days=d)\<close>, in microseconds; it refuses more than 999999999 days.\<close>

definition timedelta_days :: "int \<Rightarrow> py_exception + int" where
  "timedelta_days d =
     (if \<bar>d\<bar> > 999999999 then Inl OverflowError else Inr (d * 86400000000))"

text \<open>\<open>aware - published_time\<close>: subtracting a naive datetime raises \<open>TypeError\<close>.\<close>

definition datetime_sub :: "int \<Rightarrow> datetime \<Rightarrow> py_exception + int" where
  "datetime_sub current_time published_time =
     (case published_time of
        Aware t \<Rightarrow> Inr (current_time - t)
      | Naive t \<Rightarrow> Inl TypeError)"

definition config_max_age_days :: "config \<Rightarrow> int" where
  "config_max_age_days cfg =
     (case youtube cfg of
        None \<Rightarrow> 7
      | Some y \<Rightarrow> (case max_video_age_days y of None \<Rightarrow> 7 | Some d \<Rightarrow> d))"

text \<open>The body of the \<open>try\<close> in \<open>_is_video_recent_enough\<close>, then the function.\<close>

definition video_age_check ::
  "(string \<Rightarrow> py_exception + datetime) \<Rightarrow> config \<Rightarrow> int \<Rightarrow> string \<Rightarrow> py_exception + bool" where
  "video_age_check fromisoformat cfg current_time published =
     (case fromisoformat (replace_Z published) of
        Inl e \<Rightarrow> Inl e
      | Inr published_time \<Rightarrow>
          (case timedelta_days (config_max_age_days cfg) of
             Inl e \<Rightarrow> Inl e
           | Inr max_age \<Rightarrow>
               (case datetime_sub current_time published_time of
                  Inl e \<Rightarrow> Inl e
                | Inr age \<Rightarrow> Inr (age \<le> max_age))))"

definition is_video_recent_enough ::
  "(string \<Rightarrow> py_exception + datetime) \<Rightarrow> config \<Rightarrow> int \<Rightarrow> string \<Rightarrow> bool" where
  "is_video_recent_enough fromisoformat cfg current_time published =
     (case video_age_check fromisoformat cfg current_time published of
        Inr is_recent \<Rightarrow> is_recent
      | Inl e \<Rightarrow> True)"

text \<open>
  The monitor's mutable data: the state manager's state, the run's statistics, and a
  log of what \<open>_send_notification\<close> did: the dry-run line it wrote, or the call it made
  to \<open>telegram_client.send_notification_sync\<close> with that call's outcome.
\<close>

datatype dispatch = DryRun string video | TelegramCall string video "py_exception + bool"

record monitor =
  state :: state_dict
  stats :: stats
  dispatches :: "dispatch list"

text \<open>
  What the outside world does while one channel is checked: the result of
  \<open>get_latest_video\<close>, the clock read by the recency check, the outcome of the
  Telegram call should it be made, and \<open>datetime.utcnow().isoformat()\<close> as read by
  \<open>update_channel_state\<close>.
\<close>

record channel_input =
  sub :: subscription
  fetched :: "py_exception + video option"
  current_time :: int
  telegram :: "py_exception + bool"
  utcnow :: string

definition send_notification ::
  "config \<Rightarrow> string \<Rightarrow> video \<Rightarrow> py_exception + bool \<Rightarrow> monitor
     \<Rightarrow> (py_exception + bool) \<times> monitor" where
  "send_notification cfg channel_name v outcome m =
     (case general cfg of
        None \<Rightarrow> (Inl KeyError, m)
      | Some g \<Rightarrow>
          if (case dry_run g of None \<Rightarrow> False | Some b \<Rightarrow> b)
          then (Inr True, m\<lparr>dispatches := dispatches m @ [DryRun channel_name v]\<rparr>)
          else (outcome, m\<lparr>dispatches := dispatches m @ [TelegramCall channel_name v outcome]\<rparr>))"

text \<open>
  The body of the \<open>try\<close> in \<open>_check_channel_for_new_videos\<close>: the monitor as the body
  leaves it, and the exception if one was raised.
\<close>

definition check_channel_body ::
  "(string \<Rightarrow> py_exception + datetime) \<Rightarrow> config \<Rightarrow> channel_input \<Rightarrow> monitor
     \<Rightarrow> py_exception option \<times> monitor" where
  "check_channel_body fromisoformat cfg inp m =
     (let cid = channel_id (sub inp); channel_name = channel_title (sub inp) in
      case fetched inp of
        Inl e \<Rightarrow> (Some e, m)
      | Inr None \<Rightarrow> (None, m)
      | Inr (Some latest_video) \<Rightarrow>
          if \<not> is_video_recent_enough fromisoformat cfg (current_time inp)
                 (published_at latest_video)
          then (None,
                m\<lparr>state := update_channel_state (state m) cid channel_name
                              (video_id latest_video) (published_at latest_video) (utcnow inp)\<rparr>)
          else if is_new_video (state m) cid (video_id latest_video)
          then
            (let m1 = m\<lparr>stats := (stats m)\<lparr>new_videos_found := new_videos_found (stats m) + 1\<rparr>\<rparr>
             in case send_notification cfg channel_name latest_video (telegram inp) m1 of
                  (Inl e, m2) \<Rightarrow> (Some e, m2)
                | (Inr sent, m2) \<Rightarrow>
                    if sent
                    then (None,
                          m2\<lparr>state := increment_notification_count
                                (update_channel_state (state m2) cid channel_name
                                  (video_id latest_video) (published_at latest_video)
                                  (utcnow inp)),
                              stats := (stats m2)\<lparr>notifications_sent :=
                                notifications_sent (stats m2) + 1\<rparr>\<rparr>)
                    else (None, m2))
          else (None, m))"

text \<open>
  \<open>_check_channel_for_new_videos\<close>: count the channel, run the body, and on any
  exception count an error. \<open>Inl\<close> would be an exception leaving the function.
\<close>

definition check_channel_for_new_videos ::
  "(string \<Rightarrow> py_exception + datetime) \<Rightarrow> config \<Rightarrow> channel_input \<Rightarrow> monitor
     \<Rightarrow> py_exception + monitor" where
  "check_channel_for_new_videos fromisoformat cfg inp m =
     (let m0 = m\<lparr>stats := (stats m)\<lparr>channels_checked := channels_checked (stats m) + 1\<rparr>\<rparr>
      in case check_channel_body fromisoformat cfg inp m0 of
           (None, m1) \<Rightarrow> Inr m1
         | (Some e, m1) \<Rightarrow> Inr (m1\<lparr>stats := (stats m1)\<lparr>errors := errors (stats m1) + 1\<rparr>\<rparr>))"

text \<open>
  The loop of \<open>run\<close> over the subscriptions: an exception that left one check would
  end the loop.
\<close>

fun check_subscriptions ::
  "(string \<Rightarrow> py_exception + datetime) \<Rightarrow> config \<Rightarrow> channel_input list \<Rightarrow> monitor
     \<Rightarrow> py_exception + monitor" where
  "check_subscriptions fromisoformat cfg [] m = Inr m"
| "check_subscriptions fromisoformat cfg (inp # inps) m =
     (case check_channel_for_new_videos fromisoformat cfg inp m of
        Inl e \<Rightarrow> Inl e
      | Inr m' \<Rightarrow> check_subscriptions fromisoformat cfg inps m')"

section \<open>The spec's words\<close>

text \<open>
  The dedup decision as the specification words it: true if no record exists for the
  channel, or if the candidate differs from the record's \<open>latest_item_id\<close> (the key
  \<open>latest_video_id\<close> of the record).
\<close>

definition latest_item_id :: "channel_state \<Rightarrow> json option" where
  "latest_item_id stored_record = map_of stored_record ''latest_video_id''"

definition is_new :: "channel_state option \<Rightarrow> string \<Rightarrow> bool" where
  "is_new stored candidate_item_id =
     (case stored of
        None \<Rightarrow> True
      | Some stored_record \<Rightarrow> latest_item_id stored_record \<noteq> Some (JStr candidate_item_id))"

text \<open>A dispatch that reported success: the dry run always, a Telegram call that returned true.\<close>

fun reported_success :: "dispatch \<Rightarrow> bool" where
  "reported_success (DryRun _ _) = True"
| "reported_success (TelegramCall _ _ r) = (r = Inr True)"

text \<open>A notification that was really sent: a Telegram call that returned true.\<close>

fun delivered :: "dispatch \<Rightarrow> bool" where
  "delivered (DryRun _ _) = False"
| "delivered (TelegramCall _ _ r) = (r = Inr True)"

fun dispatched_video :: "dispatch \<Rightarrow> video" where
  "dispatched_video (DryRun _ v) = v"
| "dispatched_video (TelegramCall _ v _) = v"

section \<open>Notions the claims are stated with\<close>

text \<open>
  An exception is raised while a channel is checked: by the fetch, or, once the item
  has passed both gates, by \<open>_send_notification\<close>.
\<close>

definition raises_exception ::
  "(string \<Rightarrow> py_exception + datetime) \<Rightarrow> config \<Rightarrow> channel_input \<Rightarrow> monitor \<Rightarrow> bool" where
  "raises_exception f cfg inp m =
     (case fetched inp of
        Inl e \<Rightarrow> True
      | Inr None \<Rightarrow> False
      | Inr (Some v) \<Rightarrow>
          is_video_recent_enough f cfg (current_time inp) (published_at v) \<and>
          is_new_video (state m) (channel_id (sub inp)) (video_id v) \<and>
          isl (fst (send_notification cfg (channel_title (sub inp)) v (telegram inp) m)))"

text \<open>The number of channels of a run during whose check an exception is raised.\<close>

fun failing_channels ::
  "(string \<Rightarrow> py_exception + datetime) \<Rightarrow> config \<Rightarrow> channel_input list \<Rightarrow> monitor \<Rightarrow> nat" where
  "failing_channels f cfg [] m = 0"
| "failing_channels f cfg (inp # inps) m =
     (if raises_exception f cfg inp m then 1 else 0) +
     (case check_channel_for_new_videos f cfg inp m of
        Inl e \<Rightarrow> 0
      | Inr m' \<Rightarrow> failing_channels f cfg inps m')"

text \<open>The item passes both gates and its dispatch reports success.\<close>

definition commits ::
  "(string \<Rightarrow> py_exception + datetime) \<Rightarrow> config \<Rightarrow> channel_input \<Rightarrow> monitor \<Rightarrow> bool" where
  "commits f cfg inp m =
     (case fetched inp of
        Inr (Some v) \<Rightarrow>
          is_video_recent_enough f cfg (current_time inp) (published_at v) \<and>
          is_new_video (state m) (channel_id (sub inp)) (video_id v) \<and>
          fst (send_notification cfg (channel_title (sub inp)) v (telegram inp) m) = Inr True
      | _ \<Rightarrow> False)"

text \<open>The item is judged too old: the recency gate's skip.\<close>

definition skips_stale ::
  "(string \<Rightarrow> py_exception + datetime) \<Rightarrow> config \<Rightarrow> channel_input \<Rightarrow> bool" where
  "skips_stale f cfg inp =
     (case fetched inp of
        Inr (Some v) \<Rightarrow> \<not> is_video_recent_enough f cfg (current_time inp) (published_at v)
      | _ \<Rightarrow> False)"

definition last_checked_of :: "state_dict \<Rightarrow> string \<Rightarrow> json option" where
  "last_checked_of s cid =
     (case get_channel_state s cid of None \<Rightarrow> None | Some r \<Rightarrow> map_of r ''last_checked'')"

text \<open>
  Successive runs of the loop, each with its own configuration, on the state that the
  run before left (a run saves the state at its end and the next one loads it).
\<close>

fun check_runs ::
  "(string \<Rightarrow> py_exception + datetime) \<Rightarrow> (config \<times> channel_input list) list \<Rightarrow> monitor
     \<Rightarrow> py_exception + monitor" where
  "check_runs f [] m = Inr m"
| "check_runs f ((cfg, inps) # runs) m =
     (case check_subscriptions f cfg inps m of
        Inl e \<Rightarrow> Inl e
      | Inr m' \<Rightarrow> check_runs f runs m')"

text \<open>
  In a check, the item with id \<open>vid\<close> is still the latest of channel \<open>c\<close>: when the
  fetch yields an item, it is that item if and only if the channel is \<open>c\<close>.
\<close>

definition still_latest :: "string \<Rightarrow> string \<Rightarrow> channel_input \<Rightarrow> bool" where
  "still_latest c vid inp =
     (case fetched inp of
        Inr (Some v') \<Rightarrow> (channel_id (sub inp) = c) = (video_id v' = vid)
      | _ \<Rightarrow> True)"

section \<open>Sample data\<close>

definition sample_fromisoformat :: "string \<Rightarrow> py_exception + datetime" where
  "sample_fromisoformat s =
     (if s = ''2024-01-01T00:00:00+00:00'' then Inr (Aware 1704067200000000)
      else if s = ''2024-01-01T00:00:00'' then Inr (Naive 1704067200000000)
      else Inl ValueError)"

definition sample_config :: config where
  "sample_config =
     \<lparr>general = Some \<lparr>dry_run = Some False\<rparr>, youtube = Some \<lparr>max_video_age_days = Some 7\<rparr>\<rparr>"

definition sample_dry_config :: config where
  "sample_dry_config =
     \<lparr>general = Some \<lparr>dry_run = Some True\<rparr>, youtube = Some \<lparr>max_video_age_days = Some 7\<rparr>\<rparr>"

definition sample_video :: video where
  "sample_video =
     \<lparr>video_id = ''V1'', title = ''First'', description = ''A video'',
      published_at = ''2024-01-01T00:00:00Z'', thumbnail_url = None,
      video_url = ''https://www.youtube.com/watch?v=V1''\<rparr>"

definition sample_sub :: subscription where
  "sample_sub = \<lparr>channel_id = ''C1'', channel_title = ''One''\<rparr>"

text \<open>The video is two days old when the channel is checked; Telegram delivers.\<close>

definition sample_input :: channel_input where
  "sample_input =
     \<lparr>sub = sample_sub, fetched = Inr (Some sample_video),
      current_time = 1704240000000000, telegram = Inr True,
      utcnow = ''2024-01-03T00:00:00''\<rparr>"

definition sample_stats :: stats where
  "sample_stats =
     \<lparr>channels_checked = 0, new_videos_found = 0, notifications_sent = 0, errors = 0\<rparr>"

definition sample_monitor :: monitor where
  "sample_monitor = \<lparr>state = default_state, stats = sample_stats, dispatches = []\<rparr>"

definition legacy_state :: state_dict where
  "legacy_state = default_state\<lparr>channels := [(''C1'', [(''name'', JStr ''One'')])]\<rparr>"

definition sample_failing_input :: channel_input where
  "sample_failing_input = sample_input\<lparr>telegram := Inr False\<rparr>"

text \<open>A channel that is already tracked, and a check of it that finds no video.\<close>

definition tracked_monitor :: monitor where
  "tracked_monitor =
     sample_monitor\<lparr>state := update_channel_state default_state ''C1'' ''One'' ''V1''
       ''2024-01-01T00:00:00Z'' ''2024-01-02T00:00:00''\<rparr>"

definition quiet_input :: channel_input where
  "quiet_input = sample_input\<lparr>fetched := Inr None\<rparr>"

text \<open>A check thirty days after the video was published, and a fetch that raises.\<close>

definition stale_input :: channel_input where
  "stale_input = sample_input\<lparr>current_time := 1706659200000000\<rparr>"

definition broken_input :: channel_input where
  "broken_input =
     \<lparr>sub = \<lparr>channel_id = ''C0'', channel_title = ''Zero''\<rparr>, fetched = Inl RuntimeError,
      current_time = 1704240000000000, telegram = Inr True,
      utcnow = ''2024-01-03T00:00:00''\<rparr>"

definition generous_config :: config where
  "generous_config =
     \<lparr>general = Some \<lparr>dry_run = None\<rparr>, youtube = Some \<lparr>max_video_age_days = Some 1000\<rparr>\<rparr>"

text \<open>Saving: one save that succeeds, and one whose write fails after one character.\<close>

definition good_save :: save_input where
  "good_save =
     \<lparr>save_utcnow = ''2024-01-03T00:00:01'', makedirs_raises = None, open_raises = None,
      write_raises = None\<rparr>"

definition failing_save :: save_input where
  "failing_save = good_save\<lparr>write_raises := Some (1, OSError)\<rparr>"

text \<open>
  The monitor after the thirty-day-old video was skipped, and two later runs: one with
  the same configuration, one that allows videos of up to 1000 days.
\<close>

definition skipped_monitor :: monitor where
  "skipped_monitor =
     \<lparr>state = update_channel_state default_state ''C1'' ''One'' ''V1''
                ''2024-01-01T00:00:00Z'' ''2024-01-03T00:00:00'',
      stats = \<lparr>channels_checked = 1, new_videos_found = 0, notifications_sent = 0,
               errors = 0\<rparr>,
      dispatches = []\<rparr>"

definition later_runs :: "(config \<times> channel_input list) list" where
  "later_runs = [(sample_config, [broken_input, stale_input]), (generous_config, [stale_input])]"



section \<open>Properties\<close>

subsection \<open>The dedup decision\<close>

text \<open>
  C4. For every stored state and every candidate item id, \<open>is_new_video\<close> is true if
  and only if the channel has no record or the candidate differs from the record's
  \<open>latest_video_id\<close>: the decision is the specification's \<open>is_new\<close> on the looked-up
  record, and nothing else of the state enters it.
\<close>

theorem is_new_video_decision:
  "(is_new_video s cid vid \<longleftrightarrow>
      (map_of (channels s) cid = None \<or>
       (\<exists>r. map_of (channels s) cid = Some r \<and>
            map_of r ''latest_video_id'' \<noteq> Some (JStr vid)))) \<and>
   is_new_video s cid vid = is_new (get_channel_state s cid) vid"
  by (simp add: is_new_video_def is_new_def latest_item_id_def get_channel_state_def
      split: option.splits)

text \<open>
  C10. A stored record that has no \<open>latest_video_id\<close> key makes every candidate new:
  \<open>dict.get\<close> answers \<open>None\<close>, which differs from every string.
\<close>

theorem is_new_video_without_fingerprint:
  "get_channel_state s cid = Some r \<Longrightarrow> map_of r ''latest_video_id'' = None \<Longrightarrow>
   is_new_video s cid vid"
  by (simp add: is_new_video_def)

theorem is_new_video_without_fingerprint_witness:
  "get_channel_state legacy_state ''C1'' = Some [(''name'', JStr ''One'')] \<and>
   map_of [(''name'', JStr ''One'')] ''latest_video_id'' = None \<and>
   is_new_video legacy_state ''C1'' ''V1''"
proof -
  have r: "get_channel_state legacy_state ''C1'' = Some [(''name'', JStr ''One'')]"
    by (simp add: get_channel_state_def legacy_state_def)
  have k: "map_of [(''name'', JStr ''One'')] ''latest_video_id'' = None"
    by simp
  from is_new_video_without_fingerprint [OF r k] r k show ?thesis
    by simp
qed

subsection \<open>Dispatch and commit\<close>

lemma send_notification_monitor:
  "state (snd (send_notification cfg n v out m)) = state m"
  "stats (snd (send_notification cfg n v out m)) = stats m"
  by (simp_all add: send_notification_def split: option.splits)

lemma send_notification_fst:
  "fst (send_notification cfg n v out m) = fst (send_notification cfg n v out m')"
  by (simp add: send_notification_def split: option.splits)

text \<open>
  C1. When the fetched item passes the recency gate and the dedup gate and
  \<open>_send_notification\<close> returns false, the check returns with the state manager's
  state exactly as it was: no record is touched (so \<open>latest_video_id\<close>,
  \<open>latest_video_timestamp\<close> and \<open>last_checked\<close> keep their values) and
  \<open>total_notifications_sent\<close> is not incremented.
\<close>

theorem failed_dispatch_commits_nothing:
  assumes "fetched inp = Inr (Some v)"
    and "is_video_recent_enough f cfg (current_time inp) (published_at v)"
    and "is_new_video (state m) (channel_id (sub inp)) (video_id v)"
    and "fst (send_notification cfg (channel_title (sub inp)) v (telegram inp) m) = Inr False"
  shows "\<exists>m'. check_channel_for_new_videos f cfg inp m = Inr m' \<and> state m' = state m"
proof -
  let ?m0 = "m\<lparr>stats := (stats m)\<lparr>channels_checked := channels_checked (stats m) + 1\<rparr>\<rparr>"
  let ?m1 = "?m0\<lparr>stats := (stats ?m0)\<lparr>new_videos_found := new_videos_found (stats ?m0) + 1\<rparr>\<rparr>"
  obtain r m2 where s: "send_notification cfg (channel_title (sub inp)) v (telegram inp) ?m1 = (r, m2)"
    by (cases "send_notification cfg (channel_title (sub inp)) v (telegram inp) ?m1")
  have "r = fst (send_notification cfg (channel_title (sub inp)) v (telegram inp) ?m1)"
    using s by simp
  also have "\<dots> = Inr False"
    using assms(4) send_notification_fst [of cfg _ v _ ?m1 m] by simp
  finally have r: "r = Inr False" .
  have "state m2 = state (snd (send_notification cfg (channel_title (sub inp)) v (telegram inp) ?m1))"
    using s by simp
  then have m2: "state m2 = state m"
    by (simp add: send_notification_monitor)
  have "check_channel_body f cfg inp ?m0 = (None, m2)"
    using assms(1-3) s r by (simp add: check_channel_body_def Let_def)
  then show ?thesis
    using m2 by (simp add: check_channel_for_new_videos_def Let_def)
qed

lemmas sample_defs = sample_fromisoformat_def sample_config_def sample_video_def
  sample_sub_def sample_input_def sample_stats_def sample_monitor_def default_state_def

lemmas recency_defs = is_video_recent_enough_def video_age_check_def timedelta_days_def
  datetime_sub_def config_max_age_days_def

lemma sample_recent:
  "is_video_recent_enough sample_fromisoformat sample_config 1704240000000000
     ''2024-01-01T00:00:00Z''"
  by (simp add: recency_defs sample_defs)

theorem failed_dispatch_commits_nothing_witness:
  "fetched sample_failing_input = Inr (Some sample_video) \<and>
   is_video_recent_enough sample_fromisoformat sample_config
     (current_time sample_failing_input) (published_at sample_video) \<and>
   is_new_video (state sample_monitor) (channel_id (sub sample_failing_input))
     (video_id sample_video) \<and>
   fst (send_notification sample_config (channel_title (sub sample_failing_input))
          sample_video (telegram sample_failing_input) sample_monitor) = Inr False \<and>
   (\<exists>m'. check_channel_for_new_videos sample_fromisoformat sample_config
            sample_failing_input sample_monitor = Inr m' \<and>
         state m' = state sample_monitor)"
proof -
  have a: "fetched sample_failing_input = Inr (Some sample_video)"
    by (simp add: sample_failing_input_def sample_input_def)
  have b: "is_video_recent_enough sample_fromisoformat sample_config
     (current_time sample_failing_input) (published_at sample_video)"
    using sample_recent by (simp add: sample_failing_input_def sample_input_def sample_video_def)
  have c: "is_new_video (state sample_monitor) (channel_id (sub sample_failing_input))
     (video_id sample_video)"
    by (simp add: is_new_video_def get_channel_state_def sample_monitor_def default_state_def)
  have d: "fst (send_notification sample_config (channel_title (sub sample_failing_input))
          sample_video (telegram sample_failing_input) sample_monitor) = Inr False"
    by (simp add: send_notification_def sample_config_def sample_failing_input_def)
  from failed_dispatch_commits_nothing [OF a b c d] a b c d show ?thesis
    by simp
qed

subsection \<open>The recency policy\<close>

text \<open>
  The policy fails open: a timestamp that does not parse, one that parses without an
  offset (subtracting it from the current time raises \<open>TypeError\<close>), and a maximum age
  that \<open>timedelta\<close> refuses are all accepted.
\<close>

lemma recency_fails_open:
  "f (replace_Z p) = Inl e \<Longrightarrow> is_video_recent_enough f cfg now p"
  "f (replace_Z p) = Inr (Naive t) \<Longrightarrow> is_video_recent_enough f cfg now p"
  "\<bar>config_max_age_days cfg\<bar> > 999999999 \<Longrightarrow> is_video_recent_enough f cfg now p"
  by (simp_all add: is_video_recent_enough_def video_age_check_def timedelta_days_def
      datetime_sub_def split: sum.splits)



subsection \<open>One check, and the loop\<close>

lemma check_channel_returns:
  "\<exists>m'. check_channel_for_new_videos f cfg inp m = Inr m'"
  by (simp add: check_channel_for_new_videos_def Let_def split: prod.splits option.splits)

lemma check_subscriptions_returns:
  "\<exists>m'. check_subscriptions f cfg inps m = Inr m'"
proof (induction inps arbitrary: m)
  case Nil
  show ?case by simp
next
  case (Cons inp inps)
  obtain m1 where "check_channel_for_new_videos f cfg inp m = Inr m1"
    using check_channel_returns by blast
  with Cons show ?case by simp
qed

lemma check_subscriptions_append:
  "check_subscriptions f cfg (xs @ ys) m =
     (case check_subscriptions f cfg xs m of
        Inl e \<Rightarrow> Inl e
      | Inr m1 \<Rightarrow> check_subscriptions f cfg ys m1)"
  by (induction xs arbitrary: m) (auto split: sum.splits)

lemma check_channel_stats:
  assumes "check_channel_for_new_videos f cfg inp m = Inr m'"
  shows "errors (stats m') = errors (stats m) + (if raises_exception f cfg inp m then 1 else 0)"
    and "channels_checked (stats m') = channels_checked (stats m) + 1"
  using assms
  by (auto simp: check_channel_for_new_videos_def check_channel_body_def raises_exception_def
      send_notification_def Let_def
      split: sum.splits option.splits if_splits prod.splits)

lemma check_channel_counts:
  assumes "check_channel_for_new_videos f cfg inp m = Inr m'"
  shows "\<exists>new. dispatches m' = dispatches m @ new \<and>
           total_notifications_sent (metadata (state m')) =
             total_notifications_sent (metadata (state m)) +
             int (length (filter reported_success new)) \<and>
           notifications_sent (stats m') =
             notifications_sent (stats m) + int (length (filter reported_success new))"
  using assms
  by (auto simp: check_channel_for_new_videos_def check_channel_body_def
      send_notification_def Let_def update_channel_state_def increment_notification_count_def
      split: sum.splits option.splits if_splits prod.splits)

lemma check_channel_state:
  assumes "check_channel_for_new_videos f cfg inp m = Inr m'"
  shows "if skips_stale f cfg inp \<or> commits f cfg inp m
         then last_checked_of (state m') (channel_id (sub inp)) = Some (JStr (utcnow inp))
         else state m' = state m"
  using assms
  by (auto simp: check_channel_for_new_videos_def check_channel_body_def commits_def
      skips_stale_def send_notification_def Let_def update_channel_state_def
      increment_notification_count_def last_checked_of_def get_channel_state_def update_conv'
      split: sum.splits option.splits if_splits prod.splits)

lemma check_subscriptions_stats:
  "check_subscriptions f cfg inps m = Inr m' \<Longrightarrow>
   errors (stats m') = errors (stats m) + int (failing_channels f cfg inps m) \<and>
   channels_checked (stats m') = channels_checked (stats m) + int (length inps)"
proof (induction inps arbitrary: m)
  case Nil
  then show ?case by simp
next
  case (Cons inp inps)
  obtain m1 where m1: "check_channel_for_new_videos f cfg inp m = Inr m1"
    using check_channel_returns by blast
  with Cons.prems have rest: "check_subscriptions f cfg inps m1 = Inr m'"
    by simp
  from Cons.IH [OF rest] check_channel_stats [OF m1] m1 show ?case
    by simp
qed

lemma check_subscriptions_counts:
  "check_subscriptions f cfg inps m = Inr m' \<Longrightarrow>
   \<exists>new. dispatches m' = dispatches m @ new \<and>
     total_notifications_sent (metadata (state m')) =
       total_notifications_sent (metadata (state m)) +
       int (length (filter reported_success new)) \<and>
     notifications_sent (stats m') =
       notifications_sent (stats m) + int (length (filter reported_success new))"
proof (induction inps arbitrary: m)
  case Nil
  then show ?case by simp
next
  case (Cons inp inps)
  obtain m1 where m1: "check_channel_for_new_videos f cfg inp m = Inr m1"
    using check_channel_returns by blast
  with Cons.prems have rest: "check_subscriptions f cfg inps m1 = Inr m'"
    by simp
  from check_channel_counts [OF m1] obtain new1 where
    n1: "dispatches m1 = dispatches m @ new1"
      "total_notifications_sent (metadata (state m1)) =
         total_notifications_sent (metadata (state m)) +
         int (length (filter reported_success new1))"
      "notifications_sent (stats m1) =
         notifications_sent (stats m) + int (length (filter reported_success new1))"
    by blast
  from Cons.IH [OF rest] obtain new2 where
    n2: "dispatches m' = dispatches m1 @ new2"
      "total_notifications_sent (metadata (state m')) =
         total_notifications_sent (metadata (state m1)) +
         int (length (filter reported_success new2))"
      "notifications_sent (stats m') =
         notifications_sent (stats m1) + int (length (filter reported_success new2))"
    by blast
  have "dispatches m' = dispatches m @ (new1 @ new2)"
    using n1(1) n2(1) by simp
  moreover have "total_notifications_sent (metadata (state m')) =
       total_notifications_sent (metadata (state m)) +
       int (length (filter reported_success (new1 @ new2)))"
    using n1(2) n2(2) by simp
  moreover have "notifications_sent (stats m') =
       notifications_sent (stats m) + int (length (filter reported_success (new1 @ new2)))"
    using n1(3) n2(3) by simp
  ultimately show ?case by blast
qed

lemmas check_defs = check_channel_for_new_videos_def check_channel_body_def
  send_notification_def update_channel_state_def increment_notification_count_def
  is_new_video_def get_channel_state_def Let_def

lemma broken_then_sample:
  "check_subscriptions sample_fromisoformat sample_config [broken_input, sample_input]
     sample_monitor =
   Inr \<lparr>state = update_channel_state default_state ''C1'' ''One'' ''V1''
                  ''2024-01-01T00:00:00Z'' ''2024-01-03T00:00:00''
                \<lparr>metadata := \<lparr>last_run = None, total_notifications_sent = 1,
                               version = ''1.0.0''\<rparr>\<rparr>,
        stats = \<lparr>channels_checked = 2, new_videos_found = 1, notifications_sent = 1,
                 errors = 1\<rparr>,
        dispatches = [TelegramCall ''One'' sample_video (Inr True)]\<rparr>"
  by (simp add: check_defs recency_defs sample_defs broken_input_def)

lemma failing_broken_then_sample:
  "failing_channels sample_fromisoformat sample_config [broken_input, sample_input]
     sample_monitor = 1"
  by (simp add: raises_exception_def check_defs recency_defs sample_defs broken_input_def)

subsection \<open>Fault isolation\<close>

text \<open>
  C8. No exception leaves the check of a channel, so the loop over the subscriptions
  always runs to its end: whatever happened to the channels \<open>before\<close>, the channel
  \<open>inp\<close> is checked, from the monitor they left, and so are the channels \<open>after\<close> it.
  At the end \<open>errors\<close> has grown by exactly the number of channels during whose check
  an exception was raised, and \<open>channels_checked\<close> by the number of channels.
\<close>

theorem fault_isolation:
  "\<exists>m1 m2 m3.
     check_subscriptions f cfg before m = Inr m1 \<and>
     check_channel_for_new_videos f cfg inp m1 = Inr m2 \<and>
     check_subscriptions f cfg after m2 = Inr m3 \<and>
     check_subscriptions f cfg (before @ inp # after) m = Inr m3 \<and>
     errors (stats m3) =
       errors (stats m) + int (failing_channels f cfg (before @ inp # after) m) \<and>
     channels_checked (stats m3) =
       channels_checked (stats m) + int (length (before @ inp # after))"
proof -
  obtain m1 where m1: "check_subscriptions f cfg before m = Inr m1"
    using check_subscriptions_returns by blast
  obtain m2 where m2: "check_channel_for_new_videos f cfg inp m1 = Inr m2"
    using check_channel_returns by blast
  obtain m3 where m3: "check_subscriptions f cfg after m2 = Inr m3"
    using check_subscriptions_returns by blast
  have all: "check_subscriptions f cfg (before @ inp # after) m = Inr m3"
    using m1 m2 m3 by (simp add: check_subscriptions_append)
  from check_subscriptions_stats [OF all] m1 m2 m3 all show ?thesis
    by blast
qed

text \<open>
  A run of two channels: the fetch of the first raises, and the second is still checked
  and notified.
\<close>

theorem fault_isolation_witness:
  "(case check_subscriptions sample_fromisoformat sample_config
           ([broken_input] @ sample_input # []) sample_monitor of
      Inl e \<Rightarrow> False
    | Inr m3 \<Rightarrow>
        errors (stats m3) = 1 \<and> channels_checked (stats m3) = 2 \<and>
        notifications_sent (stats m3) = 1 \<and>
        dispatches m3 = [TelegramCall ''One'' sample_video (Inr True)]) \<and>
   failing_channels sample_fromisoformat sample_config ([broken_input] @ sample_input # [])
     sample_monitor = 1"
proof -
  have l: "[broken_input] @ sample_input # [] = [broken_input, sample_input]"
    by simp
  from fault_isolation [of sample_fromisoformat sample_config "[broken_input]" sample_monitor
      sample_input "[]"]
  show ?thesis
    unfolding l broken_then_sample failing_broken_then_sample by simp
qed

subsection \<open>The notification counter\<close>

lemma dry_run_check:
  "check_channel_for_new_videos sample_fromisoformat sample_dry_config sample_input
     sample_monitor =
   Inr \<lparr>state = update_channel_state default_state ''C1'' ''One'' ''V1''
                  ''2024-01-01T00:00:00Z'' ''2024-01-03T00:00:00''
                \<lparr>metadata := \<lparr>last_run = None, total_notifications_sent = 1,
                               version = ''1.0.0''\<rparr>\<rparr>,
        stats = \<lparr>channels_checked = 1, new_videos_found = 1, notifications_sent = 1,
                 errors = 0\<rparr>,
        dispatches = [DryRun ''One'' sample_video]\<rparr>"
  by (simp add: check_defs recency_defs sample_defs sample_dry_config_def)

lemma save_state_total:
  "total_notifications_sent (metadata (fst (snd (save_state si s file)))) =
     total_notifications_sent (metadata s)"
  by (simp add: save_state_def Let_def split: option.splits prod.splits)

lemma two_checks:
  "check_subscriptions sample_fromisoformat sample_config [sample_failing_input, sample_input]
     sample_monitor =
   Inr \<lparr>state = update_channel_state default_state ''C1'' ''One'' ''V1''
                  ''2024-01-01T00:00:00Z'' ''2024-01-03T00:00:00''
                \<lparr>metadata := \<lparr>last_run = None, total_notifications_sent = 1,
                               version = ''1.0.0''\<rparr>\<rparr>,
        stats = \<lparr>channels_checked = 2, new_videos_found = 2, notifications_sent = 1,
                 errors = 0\<rparr>,
        dispatches = [TelegramCall ''One'' sample_video (Inr False),
                      TelegramCall ''One'' sample_video (Inr True)]\<rparr>"
  by (simp add: check_defs recency_defs sample_defs sample_failing_input_def)

text \<open>
  C2, as the claim states it, fails: in a dry run \<open>_send_notification\<close> returns true
  without calling Telegram, and the check commits. Here nothing is sent and
  \<open>total_notifications_sent\<close> is incremented.
\<close>

theorem dry_run_is_counted:
  "(case check_channel_for_new_videos sample_fromisoformat sample_dry_config sample_input
           sample_monitor of
      Inl e \<Rightarrow> False
    | Inr m' \<Rightarrow>
        total_notifications_sent (metadata (state m')) =
          total_notifications_sent (metadata (state sample_monitor)) + 1 \<and>
        dispatches m' = [DryRun ''One'' sample_video] \<and>
        filter delivered (dispatches m') = [])"
  by (simp add: dry_run_check) (simp add: sample_defs)

text \<open>
  C2, amended. Over a run, \<open>total_notifications_sent\<close> grows by exactly the number of
  dispatches that reported success: the Telegram calls that returned true and the dry
  runs. A Telegram call that returns false or raises adds nothing. The counter never
  decreases: \<open>update_channel_state\<close> and \<open>save_state\<close> leave it as it is and
  \<open>increment_notification_count\<close> adds one.
\<close>

theorem notification_count:
  "(\<exists>m' new.
      check_subscriptions f cfg inps m = Inr m' \<and>
      dispatches m' = dispatches m @ new \<and>
      total_notifications_sent (metadata (state m')) =
        total_notifications_sent (metadata (state m)) +
        int (length (filter reported_success new)) \<and>
      total_notifications_sent (metadata (state m)) \<le>
        total_notifications_sent (metadata (state m'))) \<and>
   total_notifications_sent (metadata (update_channel_state s c n v t u)) =
     total_notifications_sent (metadata s) \<and>
   total_notifications_sent (metadata (increment_notification_count s)) =
     total_notifications_sent (metadata s) + 1 \<and>
   total_notifications_sent (metadata (fst (snd (save_state si s file)))) =
     total_notifications_sent (metadata s)"
proof -
  obtain m' where m': "check_subscriptions f cfg inps m = Inr m'"
    using check_subscriptions_returns by blast
  from check_subscriptions_counts [OF m'] obtain new where
    n: "dispatches m' = dispatches m @ new"
      "total_notifications_sent (metadata (state m')) =
         total_notifications_sent (metadata (state m)) +
         int (length (filter reported_success new))"
    by blast
  from n(2) have "total_notifications_sent (metadata (state m)) \<le>
      total_notifications_sent (metadata (state m'))"
    by simp
  with m' n have "\<exists>m' new.
      check_subscriptions f cfg inps m = Inr m' \<and>
      dispatches m' = dispatches m @ new \<and>
      total_notifications_sent (metadata (state m')) =
        total_notifications_sent (metadata (state m)) +
        int (length (filter reported_success new)) \<and>
      total_notifications_sent (metadata (state m)) \<le>
        total_notifications_sent (metadata (state m'))"
    by blast
  then show ?thesis
    by (simp add: save_state_total) (simp add: update_channel_state_def increment_notification_count_def)
qed

text \<open>Two checks of a channel: Telegram fails at the first and delivers at the second.\<close>

theorem notification_count_witness:
  "(case check_subscriptions sample_fromisoformat sample_config
           [sample_failing_input, sample_input] sample_monitor of
      Inl e \<Rightarrow> False
    | Inr m' \<Rightarrow>
        dispatches m' = [TelegramCall ''One'' sample_video (Inr False),
                         TelegramCall ''One'' sample_video (Inr True)] \<and>
        length (filter reported_success (dispatches m')) = 1 \<and>
        total_notifications_sent (metadata (state m')) = 1) \<and>
   total_notifications_sent (metadata (state sample_monitor)) = 0"
  using notification_count [of sample_fromisoformat sample_config
      "[sample_failing_input, sample_input]" sample_monitor]
  unfolding two_checks by (simp add: sample_defs update_channel_state_def)

subsection \<open>The time of the last check\<close>

text \<open>
  C9, as the claim states it, fails: a check that finds no video, and a check that
  finds the video already recorded, leave \<open>last_checked\<close> at the time of the check
  before.
\<close>

theorem last_checked_not_always_updated:
  "(case check_channel_for_new_videos sample_fromisoformat sample_config quiet_input
           tracked_monitor of
      Inl e \<Rightarrow> None
    | Inr m' \<Rightarrow> last_checked_of (state m') (channel_id (sub quiet_input))) =
     Some (JStr ''2024-01-02T00:00:00'') \<and>
   utcnow quiet_input = ''2024-01-03T00:00:00'' \<and>
   (case check_channel_for_new_videos sample_fromisoformat sample_config sample_input
           tracked_monitor of
      Inl e \<Rightarrow> None
    | Inr m' \<Rightarrow> last_checked_of (state m') (channel_id (sub sample_input))) =
     Some (JStr ''2024-01-02T00:00:00'') \<and>
   utcnow sample_input = ''2024-01-03T00:00:00''"
  by (simp add: check_defs recency_defs sample_defs tracked_monitor_def quiet_input_def last_checked_of_def)

text \<open>
  C9, amended. \<open>last_checked\<close> is set to the current time exactly when the check
  records a fingerprint: the item is judged too old, or it passes both gates and its
  dispatch reports success. Every other check (no item, a fetch that raises, an item
  that is not new, a dispatch that returns false or raises) leaves the whole state
  as it was.
\<close>

theorem last_checked_when_recorded:
  "\<exists>m'. check_channel_for_new_videos f cfg inp m = Inr m' \<and>
     (if skips_stale f cfg inp \<or> commits f cfg inp m
      then last_checked_of (state m') (channel_id (sub inp)) = Some (JStr (utcnow inp))
      else state m' = state m)"
proof -
  obtain m' where m': "check_channel_for_new_videos f cfg inp m = Inr m'"
    using check_channel_returns by blast
  from check_channel_state [OF m'] m' show ?thesis
    by blast
qed

theorem last_checked_when_recorded_witness:
  "skips_stale sample_fromisoformat sample_config stale_input \<and>
   (case check_channel_for_new_videos sample_fromisoformat sample_config stale_input
           tracked_monitor of
      Inl e \<Rightarrow> None
    | Inr m' \<Rightarrow> last_checked_of (state m') (channel_id (sub stale_input))) =
     Some (JStr (utcnow stale_input)) \<and>
   (skips_stale sample_fromisoformat sample_config quiet_input \<or>
    commits sample_fromisoformat sample_config quiet_input tracked_monitor) = False \<and>
   (case check_channel_for_new_videos sample_fromisoformat sample_config quiet_input
           tracked_monitor of
      Inl e \<Rightarrow> None
    | Inr m' \<Rightarrow> Some (state m')) = Some (state tracked_monitor)"
proof -
  have a: "skips_stale sample_fromisoformat sample_config stale_input"
    by (simp add: skips_stale_def recency_defs sample_defs stale_input_def)
  have b: "(skips_stale sample_fromisoformat sample_config quiet_input \<or>
    commits sample_fromisoformat sample_config quiet_input tracked_monitor) = False"
    by (simp add: skips_stale_def commits_def sample_defs tracked_monitor_def quiet_input_def)
  from last_checked_when_recorded [of sample_fromisoformat sample_config stale_input tracked_monitor]
    last_checked_when_recorded [of sample_fromisoformat sample_config quiet_input tracked_monitor]
    a b
  show ?thesis
    by auto
qed

subsection \<open>Stale items\<close>

lemma suppressed_step:
  assumes "\<not> is_new_video (state m) c vid"
    and "still_latest c vid inp"
    and "check_channel_for_new_videos f cfg inp m = Inr m'"
  shows "\<not> is_new_video (state m') c vid \<and>
         (\<exists>new. dispatches m' = dispatches m @ new \<and>
                list_all (\<lambda>d. video_id (dispatched_video d) \<noteq> vid) new)"
proof (cases "fetched inp")
  case (Inl e)
  with assms show ?thesis
    by (auto simp: check_channel_for_new_videos_def check_channel_body_def Let_def)
next
  case (Inr r)
  show ?thesis
  proof (cases r)
    case None
    with Inr assms show ?thesis
      by (auto simp: check_channel_for_new_videos_def check_channel_body_def Let_def)
  next
    case (Some v)
    show ?thesis
    proof (cases "channel_id (sub inp) = c")
      case True
      with assms(2) Inr Some have vid: "video_id v = vid"
        by (simp add: still_latest_def)
      with assms(1,3) Inr Some True show ?thesis
        by (auto simp: check_channel_for_new_videos_def check_channel_body_def Let_def
            update_channel_state_def is_new_video_def get_channel_state_def update_conv'
            split: if_splits)
    next
      case False
      with assms(2) Inr Some have vid: "video_id v \<noteq> vid"
        by (simp add: still_latest_def)
      with assms(1,3) Inr Some False show ?thesis
        by (auto simp: check_channel_for_new_videos_def check_channel_body_def Let_def
            send_notification_def update_channel_state_def increment_notification_count_def
            is_new_video_def get_channel_state_def update_conv'
            split: sum.splits option.splits if_splits prod.splits)
    qed
  qed
qed

lemma stale_skip_records:
  assumes "fetched inp = Inr (Some v)"
    and "\<not> is_video_recent_enough f cfg (current_time inp) (published_at v)"
    and "check_channel_for_new_videos f cfg inp m = Inr m'"
  shows "\<not> is_new_video (state m') (channel_id (sub inp)) (video_id v) \<and>
         dispatches m' = dispatches m"
  using assms
  by (auto simp: check_channel_for_new_videos_def check_channel_body_def
      Let_def update_channel_state_def is_new_video_def get_channel_state_def update_conv')

lemma suppressed_run:
  "\<not> is_new_video (state m) c vid \<Longrightarrow> list_all (still_latest c vid) inps \<Longrightarrow>
   check_subscriptions f cfg inps m = Inr m' \<Longrightarrow>
   \<not> is_new_video (state m') c vid \<and>
   (\<exists>new. dispatches m' = dispatches m @ new \<and>
          list_all (\<lambda>d. video_id (dispatched_video d) \<noteq> vid) new)"
proof (induction inps arbitrary: m)
  case Nil
  then show ?case by simp
next
  case (Cons inp inps)
  obtain m1 where m1: "check_channel_for_new_videos f cfg inp m = Inr m1"
    using check_channel_returns by blast
  with Cons.prems have rest: "check_subscriptions f cfg inps m1 = Inr m'"
    by simp
  from Cons.prems have h: "still_latest c vid inp" and hs: "list_all (still_latest c vid) inps"
    by simp_all
  from suppressed_step [OF Cons.prems(1) h m1] obtain new1 where
    s1: "\<not> is_new_video (state m1) c vid" "dispatches m1 = dispatches m @ new1"
      "list_all (\<lambda>d. video_id (dispatched_video d) \<noteq> vid) new1"
    by blast
  from Cons.IH [OF s1(1) hs rest] obtain new2 where
    s2: "\<not> is_new_video (state m') c vid" "dispatches m' = dispatches m1 @ new2"
      "list_all (\<lambda>d. video_id (dispatched_video d) \<noteq> vid) new2"
    by blast
  have "dispatches m' = dispatches m @ (new1 @ new2)"
    using s1(2) s2(2) by simp
  moreover have "list_all (\<lambda>d. video_id (dispatched_video d) \<noteq> vid) (new1 @ new2)"
    using s1(3) s2(3) by simp
  ultimately show ?case using s2(1) by blast
qed

lemma check_runs_returns:
  "\<exists>m'. check_runs f runs m = Inr m'"
proof (induction runs arbitrary: m)
  case Nil
  show ?case by simp
next
  case (Cons run runs)
  obtain cfg inps where run: "run = (cfg, inps)"
    by (cases run)
  obtain m1 where "check_subscriptions f cfg inps m = Inr m1"
    using check_subscriptions_returns by blast
  with Cons run show ?case by simp
qed

lemma suppressed_runs:
  "\<not> is_new_video (state m) c vid \<Longrightarrow>
   list_all (\<lambda>run. list_all (still_latest c vid) (snd run)) runs \<Longrightarrow>
   check_runs f runs m = Inr m' \<Longrightarrow>
   \<not> is_new_video (state m') c vid \<and>
   (\<exists>new. dispatches m' = dispatches m @ new \<and>
          list_all (\<lambda>d. video_id (dispatched_video d) \<noteq> vid) new)"
proof (induction runs arbitrary: m)
  case Nil
  then show ?case by simp
next
  case (Cons run runs)
  obtain cfg inps where run: "run = (cfg, inps)"
    by (cases run)
  obtain m1 where m1: "check_subscriptions f cfg inps m = Inr m1"
    using check_subscriptions_returns by blast
  with Cons.prems run have rest: "check_runs f runs m1 = Inr m'"
    by simp
  from Cons.prems run have h: "list_all (still_latest c vid) inps"
    and hs: "list_all (\<lambda>run. list_all (still_latest c vid) (snd run)) runs"
    by simp_all
  from suppressed_run [OF Cons.prems(1) h m1] obtain new1 where
    s1: "\<not> is_new_video (state m1) c vid" "dispatches m1 = dispatches m @ new1"
      "list_all (\<lambda>d. video_id (dispatched_video d) \<noteq> vid) new1"
    by blast
  from Cons.IH [OF s1(1) hs rest] obtain new2 where
    s2: "\<not> is_new_video (state m') c vid" "dispatches m' = dispatches m1 @ new2"
      "list_all (\<lambda>d. video_id (dispatched_video d) \<noteq> vid) new2"
    by blast
  have "dispatches m' = dispatches m @ (new1 @ new2)"
    using s1(2) s2(2) by simp
  moreover have "list_all (\<lambda>d. video_id (dispatched_video d) \<noteq> vid) (new1 @ new2)"
    using s1(3) s2(3) by simp
  ultimately show ?case using s2(1) by blast
qed

lemma later_runs_result:
  "check_runs sample_fromisoformat later_runs skipped_monitor =
   Inr (skipped_monitor\<lparr>stats := \<lparr>channels_checked = 4, new_videos_found = 0,
                                   notifications_sent = 0, errors = 1\<rparr>\<rparr>)"
  by (simp add: later_runs_def check_defs recency_defs sample_defs stale_input_def broken_input_def generous_config_def
      skipped_monitor_def)

text \<open>
  C6. A check judges an item too old and records its fingerprint, dispatching nothing.
  Then, over all the checks that follow, in this run and in later runs, whatever their
  configuration, clock and Telegram outcomes: as long as the item is what the fetch of
  its channel yields when it yields anything, no dispatch (real or dry) is ever about
  that item, and at the end the item is still not new for its channel.
\<close>

theorem stale_item_never_notified:
  assumes "fetched inp = Inr (Some v)"
    and "\<not> is_video_recent_enough f cfg (current_time inp) (published_at v)"
    and "check_channel_for_new_videos f cfg inp m = Inr m1"
    and "list_all (\<lambda>run. list_all (still_latest (channel_id (sub inp)) (video_id v)) (snd run))
           runs"
    and "check_runs f runs m1 = Inr m2"
  shows "dispatches m1 = dispatches m \<and>
         (\<exists>new. dispatches m2 = dispatches m1 @ new \<and>
                list_all (\<lambda>d. video_id (dispatched_video d) \<noteq> video_id v) new) \<and>
         \<not> is_new_video (state m2) (channel_id (sub inp)) (video_id v)"
proof -
  from stale_skip_records [OF assms(1-3)]
  have a: "\<not> is_new_video (state m1) (channel_id (sub inp)) (video_id v)"
    and b: "dispatches m1 = dispatches m"
    by simp_all
  from suppressed_runs [OF a assms(4,5)] b show ?thesis
    by blast
qed

text \<open>
  The video is skipped at thirty days. The second of the later runs allows 1000 days,
  so the recency gate lets the video through there and the dedup gate stops it.
\<close>

theorem stale_item_never_notified_witness:
  "fetched stale_input = Inr (Some sample_video) \<and>
   \<not> is_video_recent_enough sample_fromisoformat sample_config (current_time stale_input)
       (published_at sample_video) \<and>
   check_channel_for_new_videos sample_fromisoformat sample_config stale_input sample_monitor =
     Inr skipped_monitor \<and>
   list_all (\<lambda>run. list_all (still_latest (channel_id (sub stale_input))
                                (video_id sample_video)) (snd run)) later_runs \<and>
   is_video_recent_enough sample_fromisoformat generous_config (current_time stale_input)
       (published_at sample_video) \<and>
   (case check_runs sample_fromisoformat later_runs skipped_monitor of
      Inl e \<Rightarrow> False
    | Inr m2 \<Rightarrow>
        dispatches m2 = [] \<and>
        \<not> is_new_video (state m2) (channel_id (sub stale_input)) (video_id sample_video))"
proof -
  have a: "fetched stale_input = Inr (Some sample_video)"
    by (simp add: stale_input_def sample_input_def)
  have b: "\<not> is_video_recent_enough sample_fromisoformat sample_config
              (current_time stale_input) (published_at sample_video)"
    by (simp add: recency_defs sample_defs stale_input_def)
  have c: "check_channel_for_new_videos sample_fromisoformat sample_config stale_input
             sample_monitor = Inr skipped_monitor"
    by (simp add: check_defs recency_defs sample_defs stale_input_def skipped_monitor_def)
  have d: "list_all (\<lambda>run. list_all (still_latest (channel_id (sub stale_input))
                                (video_id sample_video)) (snd run)) later_runs"
    by (simp add: later_runs_def still_latest_def sample_defs stale_input_def broken_input_def)
  have e: "is_video_recent_enough sample_fromisoformat generous_config
             (current_time stale_input) (published_at sample_video)"
    by (simp add: recency_defs sample_defs stale_input_def generous_config_def)
  from stale_item_never_notified [OF a b c d later_runs_result] a b c d e show ?thesis
    by (simp add: later_runs_result sample_monitor_def)
qed

subsection \<open>Saving the state\<close>

lemma json_dump_starts:
  "\<exists>rest. json_dump s = CHR ''{'' # CHR 0x0A # rest"
  by (simp add: json_dump_def state_json_def newline_indent_def)

text \<open>
  C3, as the claim states it, fails. The file holds a complete state; \<open>save_state\<close>
  opens it for writing, which empties it, and the write fails after one character:
  the exception leaves \<open>save_state\<close> and the file now holds the single character
  \<open>{\<close>, neither the previous state nor the new one.
\<close>

theorem failed_save_destroys_file:
  "fst (save_state failing_save default_state (Some (json_dump default_state))) = Some OSError \<and>
   snd (snd (save_state failing_save default_state (Some (json_dump default_state)))) =
     Some ''{'' \<and>
   json_dump default_state \<noteq> ''{''"
proof -
  let ?s1 = "default_state\<lparr>metadata := (metadata default_state)\<lparr>last_run :=
               Some (save_utcnow failing_save)\<rparr>\<rparr>"
  obtain r1 where r1: "json_dump ?s1 = CHR ''{'' # CHR 0x0A # r1"
    using json_dump_starts by blast
  obtain r0 where r0: "json_dump default_state = CHR ''{'' # CHR 0x0A # r0"
    using json_dump_starts by blast
  have "save_state failing_save default_state (Some (json_dump default_state)) =
          (Some OSError, ?s1, Some (take 1 (json_dump ?s1)))"
    by (simp add: save_state_def Let_def failing_save_def good_save_def)
  then show ?thesis
    using r1 r0 by simp
qed

text \<open>
  C3, amended. \<open>save_state\<close> sets \<open>last_run\<close> and then rewrites the file in place. If
  \<open>os.makedirs\<close> or \<open>open\<close> raises, the exception leaves \<open>save_state\<close> and the file
  is as it was. Once the file is open its previous content is gone: the file holds a
  prefix of the new state's text, the whole text when no exception is raised, and an
  exception is raised exactly when writing fails.
\<close>

theorem save_state_in_place:
  assumes "save_state inp s file = (e, s', file')"
  shows "s' = s\<lparr>metadata := (metadata s)\<lparr>last_run := Some (save_utcnow inp)\<rparr>\<rparr> \<and>
         (if makedirs_raises inp = None \<and> open_raises inp = None
          then (\<exists>n. file' = Some (take n (json_dump s'))) \<and>
               (e = None) = (write_raises inp = None) \<and>
               (e = None \<longrightarrow> file' = Some (json_dump s'))
          else e \<noteq> None \<and> file' = file)"
proof -
  let ?s1 = "s\<lparr>metadata := (metadata s)\<lparr>last_run := Some (save_utcnow inp)\<rparr>\<rparr>"
  show ?thesis
  proof (cases "makedirs_raises inp")
    case (Some x)
    then have "save_state inp s file = (Some x, ?s1, file)"
      by (simp add: save_state_def Let_def)
    with assms have "e = Some x" "s' = ?s1" "file' = file"
      by auto
    with Some show ?thesis
      by simp
  next
    case None
    note mk = this
    show ?thesis
    proof (cases "open_raises inp")
      case (Some x)
      with mk have "save_state inp s file = (Some x, ?s1, file)"
        by (simp add: save_state_def Let_def)
      with assms have "e = Some x" "s' = ?s1" "file' = file"
        by auto
      with Some show ?thesis
        by simp
    next
      case None
      note op = this
      show ?thesis
      proof (cases "write_raises inp")
        case None
        with mk op have "save_state inp s file = (None, ?s1, Some (json_dump ?s1))"
          by (simp add: save_state_def Let_def)
        with assms have r: "e = None" "s' = ?s1" "file' = Some (json_dump s')"
          by auto
        have "file' = Some (take (length (json_dump s')) (json_dump s'))"
          using r(3) by simp
        then have "\<exists>n. file' = Some (take n (json_dump s'))"
          by blast
        with r mk op None show ?thesis
          by simp
      next
        case (Some ne)
        obtain n x where ne: "ne = (n, x)"
          by (cases ne)
        with Some mk op have "save_state inp s file = (Some x, ?s1, Some (take n (json_dump ?s1)))"
          by (simp add: save_state_def Let_def)
        with assms have r: "e = Some x" "s' = ?s1" "file' = Some (take n (json_dump s'))"
          by auto
        from r(3) have "\<exists>n. file' = Some (take n (json_dump s'))"
          by blast
        with r mk op Some show ?thesis
          by simp
      qed
    qed
  qed
qed

theorem save_state_in_place_witness:
  "save_state good_save default_state None =
     (None,
      default_state\<lparr>metadata := (metadata default_state)\<lparr>last_run :=
        Some ''2024-01-03T00:00:01''\<rparr>\<rparr>,
      Some (json_dump (default_state\<lparr>metadata := (metadata default_state)\<lparr>last_run :=
        Some ''2024-01-03T00:00:01''\<rparr>\<rparr>))) \<and>
   makedirs_raises good_save = None \<and> open_raises good_save = None \<and>
   write_raises good_save = None"
proof -
  have a: "save_state good_save default_state None =
     (None,
      default_state\<lparr>metadata := (metadata default_state)\<lparr>last_run :=
        Some ''2024-01-03T00:00:01''\<rparr>\<rparr>,
      Some (json_dump (default_state\<lparr>metadata := (metadata default_state)\<lparr>last_run :=
        Some ''2024-01-03T00:00:01''\<rparr>\<rparr>)))"
    by (simp add: save_state_def Let_def good_save_def)
  from save_state_in_place [OF a] a show ?thesis
    by (simp add: good_save_def)
qed

subsection \<open>Loading the state\<close>

text \<open>
  A missing file, and a read that raises \<open>JSONDecodeError\<close> or an \<open>IOError\<close>, give
  the default state; a file that parses gives its content.
\<close>

lemma load_state_falls_back:
  "load_state Missing = Inr default_state"
  "isinstance e JSONDecodeError \<or> isinstance e IOError \<Longrightarrow>
     load_state (Present (ReadRaises e)) = Inr default_state"
  "load_state (Present (ReadReturns s)) = Inr s"
  by (simp_all add: load_state_def)

text \<open>
  C7 does not hold of the code. A state file whose bytes are not valid text in the
  encoding of \<open>open\<close> (the single byte 0xFF under UTF-8) makes \<open>json.load\<close> raise
  \<open>UnicodeDecodeError\<close> when it reads the file. That is a \<open>ValueError\<close>, but neither
  a \<open>JSONDecodeError\<close> nor an \<open>IOError\<close>, so the \<open>except\<close> clause of \<open>_load_state\<close>
  does not catch it and the exception leaves \<open>_load_state\<close>.
\<close>

theorem load_state_undecodable_file:
  "load_state (Present (ReadRaises UnicodeDecodeError)) = Inl UnicodeDecodeError"
  by (simp add: load_state_def isinstance_def)

end
